theory Spec2Isabelle
  imports Main
begin

section \<open>Values, objects and the store\<close>

text \<open>
  The module \<^verbatim>\<open>src/utils.js\<close> works on untyped JavaScript values and mutates the
  objects it is handed. Values are modelled by \<open>val\<close>; objects live in a store and
  are referred to by address, so that "the same object" is "the same address" and a
  mutation is visible through every reference to it.

  Scope of the model. Objects carry own, writable, configurable data properties only;
  an array is an object with the flag \<open>is_array\<close> whose elements sit under the keys
  \<^verbatim>\<open>"0"\<close>, \<^verbatim>\<open>"1"\<close>, ... next to its \<^verbatim>\<open>"length"\<close>. Numbers are integers
  (no \<^verbatim>\<open>NaN\<close>, no fractions), there are no function values, and the members that
  every object inherits from \<^verbatim>\<open>Object.prototype\<close> are not looked up, except
  \<^verbatim>\<open>hasOwnProperty\<close>, which the code calls and which an own property of that name
  shadows. Assigning to the \<^verbatim>\<open>length\<close> of an array is the one operation whose
  outcome is not modelled; it is reported as \<open>Unmodelled\<close>, and so is a write at an
  index of an array object that carries no numeric \<^verbatim>\<open>length\<close>, which no array of
  the language is. The file is an ES module, hence strict code: assigning to a property
  of a primitive throws.
\<close>

type_synonym addr = nat

datatype val = Undefined | Null | Bool bool | Num int | Str string | Ref addr

record jsobj =
  is_array :: bool
  props :: "string \<rightharpoonup> val"

record store =
  objs :: "addr \<Rightarrow> jsobj"
  next_free :: addr

text \<open>
  The code throws \<^verbatim>\<open>new Error(message)\<close> in two places of \<^verbatim>\<open>checkContext\<close>; the
  constructors \<open>ContextMismatch\<close> and \<open>OperationMismatch\<close> stand for these two
  \<^verbatim>\<open>throw\<close> statements and carry the values the message is built from (the label and
  the required type; the label and the list that is passed to \<^verbatim>\<open>JSON.stringify\<close>).
  \<open>TypeError\<close> is the error of the language itself.
\<close>

datatype error =
    TypeError
  | Unmodelled
  | ContextMismatch string string
  | OperationMismatch string "string list"

definition empty_obj :: jsobj where
  "empty_obj = \<lparr>is_array = False, props = Map.empty\<rparr>"

text \<open>An address is allocated when it lies below the allocation pointer.\<close>

definition allocated :: "store \<Rightarrow> addr \<Rightarrow> bool" where
  "allocated s a = (a < next_free s)"

definition alloc :: "store \<Rightarrow> jsobj \<Rightarrow> addr \<times> store" where
  "alloc s ob = (next_free s, s\<lparr>objs := (objs s)(next_free s := ob), next_free := Suc (next_free s)\<rparr>)"

text \<open>Truthiness (\<^verbatim>\<open>ToBoolean\<close>) and \<^verbatim>\<open>typeof v === 'object'\<close>, which holds of \<^verbatim>\<open>null\<close> too.\<close>

fun truthy :: "val \<Rightarrow> bool" where
  "truthy Undefined = False"
| "truthy Null = False"
| "truthy (Bool b) = b"
| "truthy (Num n) = (n \<noteq> 0)"
| "truthy (Str s) = (s \<noteq> [])"
| "truthy (Ref a) = True"

fun typeof_object :: "val \<Rightarrow> bool" where
  "typeof_object Null = True"
| "typeof_object (Ref a) = True"
| "typeof_object v = False"

text \<open>\<^verbatim>\<open>Array.isArray(v)\<close>\<close>

fun isArray :: "store \<Rightarrow> val \<Rightarrow> bool" where
  "isArray s (Ref a) = is_array (objs s a)"
| "isArray s v = False"

subsection \<open>Array indices\<close>

text \<open>
  A property key is an array index when it is the canonical decimal form of an integer
  below \<open>2^32 - 1\<close>: digits only, no leading zero unless it is \<^verbatim>\<open>"0"\<close> itself.
\<close>

definition digit_of :: "char \<Rightarrow> nat option" where
  "digit_of c = (let n = (of_char c :: nat) in if 48 \<le> n \<and> n \<le> 57 then Some (n - 48) else None)"

fun decimal :: "nat \<Rightarrow> string \<Rightarrow> nat option" where
  "decimal acc [] = Some acc"
| "decimal acc (c # cs) = (case digit_of c of None \<Rightarrow> None | Some d \<Rightarrow> decimal (10 * acc + d) cs)"

definition array_index :: "string \<Rightarrow> nat option" where
  "array_index k =
     (case k of
        [] \<Rightarrow> None
      | c # cs \<Rightarrow>
          if c = CHR ''0'' \<and> cs \<noteq> [] then None
          else (case decimal 0 k of
                  None \<Rightarrow> None
                | Some n \<Rightarrow> if n < 2 ^ 32 - 1 then Some n else None))"

subsection \<open>Property access\<close>

definition get_own :: "store \<Rightarrow> addr \<Rightarrow> string \<Rightarrow> val" where
  "get_own s a k = (case props (objs s a) k of None \<Rightarrow> Undefined | Some v \<Rightarrow> v)"

text \<open>
  \<^verbatim>\<open>v[k]\<close>: throws on \<^verbatim>\<open>undefined\<close> and \<^verbatim>\<open>null\<close>; a string has its length and its
  characters; booleans and numbers have no own properties.
\<close>

fun get_member :: "store \<Rightarrow> val \<Rightarrow> string \<Rightarrow> error + val" where
  "get_member s Undefined k = Inl TypeError"
| "get_member s Null k = Inl TypeError"
| "get_member s (Bool b) k = Inr Undefined"
| "get_member s (Num n) k = Inr Undefined"
| "get_member s (Str str) k =
     (if k = ''length'' then Inr (Num (int (length str)))
      else (case array_index k of
              None \<Rightarrow> Inr Undefined
            | Some i \<Rightarrow> if i < length str then Inr (Str [str ! i]) else Inr Undefined))"
| "get_member s (Ref a) k = Inr (get_own s a k)"

text \<open>
  \<^verbatim>\<open>v.hasOwnProperty(k)\<close>: the method is found on the prototype unless the object has
  an own property of that name, whose value is then called; no value of the model is a
  function, so that call throws.
\<close>

fun has_own_property :: "store \<Rightarrow> val \<Rightarrow> string \<Rightarrow> error + bool" where
  "has_own_property s Undefined k = Inl TypeError"
| "has_own_property s Null k = Inl TypeError"
| "has_own_property s (Bool b) k = Inr False"
| "has_own_property s (Num n) k = Inr False"
| "has_own_property s (Str str) k =
     Inr (k = ''length'' \<or> (case array_index k of None \<Rightarrow> False | Some i \<Rightarrow> i < length str))"
| "has_own_property s (Ref a) k =
     (if props (objs s a) ''hasOwnProperty'' \<noteq> None then Inl TypeError
      else Inr (props (objs s a) k \<noteq> None))"

text \<open>
  Writing an own property of the object at an address. On an array, a write at an index
  beyond the end moves \<^verbatim>\<open>length\<close> up.
\<close>

definition write_own :: "store \<Rightarrow> addr \<Rightarrow> string \<Rightarrow> val \<Rightarrow> store" where
  "write_own s a k v = s\<lparr>objs := (objs s)(a := (objs s a)\<lparr>props := (props (objs s a))(k \<mapsto> v)\<rparr>)\<rparr>"

definition put_own :: "store \<Rightarrow> addr \<Rightarrow> string \<Rightarrow> val \<Rightarrow> error + store" where
  "put_own s a k v =
     (if is_array (objs s a) then
        (if k = ''length'' then Inl Unmodelled
         else (case array_index k of
                 None \<Rightarrow> Inr (write_own s a k v)
               | Some i \<Rightarrow>
                   (case props (objs s a) ''length'' of
                      Some (Num n) \<Rightarrow>
                        Inr (write_own (write_own s a k v) a ''length'' (Num (max n (int i + 1))))
                    | _ \<Rightarrow> Inl Unmodelled)))
      else Inr (write_own s a k v))"

text \<open>\<^verbatim>\<open>v[k] = x\<close>\<close>

fun set_member :: "store \<Rightarrow> val \<Rightarrow> string \<Rightarrow> val \<Rightarrow> error + store" where
  "set_member s (Ref a) k x = put_own s a k x"
| "set_member s v k x = Inl TypeError"

text \<open>
  \<^verbatim>\<open>delete v[k]\<close>: removes an own property; the \<^verbatim>\<open>length\<close> of an array or of a
  string and the characters of a string cannot be deleted.
\<close>

fun delete_member :: "store \<Rightarrow> val \<Rightarrow> string \<Rightarrow> error + store" where
  "delete_member s Undefined k = Inl TypeError"
| "delete_member s Null k = Inl TypeError"
| "delete_member s (Bool b) k = Inr s"
| "delete_member s (Num n) k = Inr s"
| "delete_member s (Str str) k =
     (if k = ''length'' \<or> (case array_index k of None \<Rightarrow> False | Some i \<Rightarrow> i < length str)
      then Inl TypeError else Inr s)"
| "delete_member s (Ref a) k =
     (if is_array (objs s a) \<and> k = ''length'' then Inl TypeError
      else Inr (s\<lparr>objs := (objs s)(a := (objs s a)\<lparr>props := (props (objs s a))(k := None)\<rparr>)\<rparr>))"

section \<open>Dot paths\<close>

text \<open>\<^verbatim>\<open>path.split('.')\<close>: never empty; the empty string gives one empty segment.\<close>

fun split_dot :: "string \<Rightarrow> string list" where
  "split_dot [] = [[]]"
| "split_dot (c # cs) =
     (if c = CHR ''.'' then [] # split_dot cs
      else (case split_dot cs of
              [] \<Rightarrow> [[c]]
            | w # ws \<Rightarrow> (c # w) # ws))"

subsection \<open>getByDot\<close>

text \<open>
  \<^verbatim>\<open>(obj1, part) => (typeof obj1 === 'object' ? obj1[part] : undefined)\<close>, folded over
  the segments from the left, starting at \<open>obj\<close>.
\<close>

definition getByDot_step :: "store \<Rightarrow> val \<Rightarrow> string \<Rightarrow> error + val" where
  "getByDot_step s obj1 part = (if typeof_object obj1 then get_member s obj1 part else Inr Undefined)"

fun getByDot_reduce :: "store \<Rightarrow> val \<Rightarrow> string list \<Rightarrow> error + val" where
  "getByDot_reduce s obj1 [] = Inr obj1"
| "getByDot_reduce s obj1 (part # rest) =
     (case getByDot_step s obj1 part of
        Inl e \<Rightarrow> Inl e
      | Inr v \<Rightarrow> getByDot_reduce s v rest)"

definition getByDot :: "store \<Rightarrow> val \<Rightarrow> string \<Rightarrow> error + val" where
  "getByDot s obj path = getByDot_reduce s obj (split_dot path)"

subsection \<open>setByDot\<close>

text \<open>
  The callback of the reduction in \<^verbatim>\<open>setByDot\<close>, with the index \<open>i\<close> of the segment.
  At a segment that is not the last it returns \<^verbatim>\<open>obj1[part]\<close>, at the last one it
  returns \<^verbatim>\<open>obj1\<close>.
\<close>

definition setByDot_step ::
  "store \<Rightarrow> val \<Rightarrow> string \<Rightarrow> nat \<Rightarrow> nat \<Rightarrow> val \<Rightarrow> bool \<Rightarrow> error + (val \<times> store)" where
  "setByDot_step s obj1 part i lastIndex value ifDelete =
     (if i \<noteq> lastIndex then
        (case has_own_property s obj1 part of
           Inl e \<Rightarrow> Inl e
         | Inr own \<Rightarrow>
             (case (if \<not> own then Inr True
                    else (case get_member s obj1 part of
                            Inl e \<Rightarrow> Inl e
                          | Inr v \<Rightarrow> Inr (\<not> typeof_object v))) of
                Inl e \<Rightarrow> Inl e
              | Inr replace \<Rightarrow>
                  (case (if replace
                         then (let (b, s0) = alloc s empty_obj in set_member s0 obj1 part (Ref b))
                         else Inr s) of
                     Inl e \<Rightarrow> Inl e
                   | Inr s1 \<Rightarrow>
                       (case get_member s1 obj1 part of
                          Inl e \<Rightarrow> Inl e
                        | Inr v \<Rightarrow> Inr (v, s1)))))
      else
        (case set_member s obj1 part value of
           Inl e \<Rightarrow> Inl e
         | Inr s1 \<Rightarrow>
             (case (if value = Undefined \<and> ifDelete then delete_member s1 obj1 part else Inr s1) of
                Inl e \<Rightarrow> Inl e
              | Inr s2 \<Rightarrow> Inr (obj1, s2))))"

fun setByDot_reduce ::
  "store \<Rightarrow> val \<Rightarrow> string list \<Rightarrow> nat \<Rightarrow> nat \<Rightarrow> val \<Rightarrow> bool \<Rightarrow> error + (val \<times> store)" where
  "setByDot_reduce s obj1 [] i lastIndex value ifDelete = Inr (obj1, s)"
| "setByDot_reduce s obj1 (part # rest) i lastIndex value ifDelete =
     (case setByDot_step s obj1 part i lastIndex value ifDelete of
        Inl e \<Rightarrow> Inl e
      | Inr (v, s1) \<Rightarrow> setByDot_reduce s1 v rest (Suc i) lastIndex value ifDelete)"

definition setByDot :: "store \<Rightarrow> val \<Rightarrow> string \<Rightarrow> val \<Rightarrow> bool \<Rightarrow> error + (val \<times> store)" where
  "setByDot s obj path value ifDelete =
     (let parts = split_dot path;
          lastIndex = length parts - 1
      in setByDot_reduce s obj parts 0 lastIndex value ifDelete)"

section \<open>Hooks\<close>

text \<open>
  The hook is an object of the store like any other: the functions receive a reference
  to it, read its fields \<^verbatim>\<open>type\<close>, \<^verbatim>\<open>method\<close>, \<^verbatim>\<open>data\<close> and \<^verbatim>\<open>result\<close> as
  properties and write \<^verbatim>\<open>data\<close> and \<^verbatim>\<open>result\<close> into it. A field that is absent
  reads as \<^verbatim>\<open>undefined\<close>. Nothing keeps a payload from being the hook itself.
\<close>

subsection \<open>checkContext\<close>

text \<open>
  The parameter \<^verbatim>\<open>methods\<close> is \<^verbatim>\<open>null\<close>, one method name or an array of method
  names; \<^verbatim>\<open>type\<close> is \<^verbatim>\<open>null\<close> (\<open>None\<close>) or a string. A parameter that is left
  out takes its default: \<^verbatim>\<open>null\<close>, \<^verbatim>\<open>[]\<close> and \<^verbatim>\<open>'anonymous'\<close>.
\<close>

datatype methods = MNull | MStr string | MArr "string list"

text \<open>Truthiness of the two parameters: \<^verbatim>\<open>null\<close> and the empty string are falsy, an array never is.\<close>

fun truthy_type :: "string option \<Rightarrow> bool" where
  "truthy_type None = False"
| "truthy_type (Some t) = (t \<noteq> [])"

fun truthy_methods :: "methods \<Rightarrow> bool" where
  "truthy_methods MNull = False"
| "truthy_methods (MStr m) = (m \<noteq> [])"
| "truthy_methods (MArr ms) = True"

text \<open>\<^verbatim>\<open>Array.isArray(methods) ? methods : [methods]\<close>, reached for a truthy \<^verbatim>\<open>methods\<close> only.\<close>

fun myMethods :: "methods \<Rightarrow> string list" where
  "myMethods (MArr ms) = ms"
| "myMethods (MStr m) = [m]"
| "myMethods MNull = []"

text \<open>
  \<^verbatim>\<open>type && hook.type !== type\<close>: \<^verbatim>\<open>hook.type\<close> is read for a truthy \<^verbatim>\<open>type\<close>
  only.
\<close>

definition type_mismatch :: "store \<Rightarrow> val \<Rightarrow> string option \<Rightarrow> error + bool" where
  "type_mismatch s hook ty =
     (if truthy_type ty then
        (case get_member s hook ''type'' of
           Inl e \<Rightarrow> Inl e
         | Inr t \<Rightarrow> Inr (t \<noteq> Str (the ty)))
      else Inr False)"

text \<open>
  \<^verbatim>\<open>myMethods.length > 0 && myMethods.indexOf(hook.method) === -1\<close>:
  \<^verbatim>\<open>hook.method\<close> is read for a non-empty list only, and \<^verbatim>\<open>indexOf\<close> compares with
  \<^verbatim>\<open>===\<close>.
\<close>

definition method_mismatch :: "store \<Rightarrow> val \<Rightarrow> string list \<Rightarrow> error + bool" where
  "method_mismatch s hook my =
     (if length my > 0 then
        (case get_member s hook ''method'' of
           Inl e \<Rightarrow> Inl e
         | Inr m \<Rightarrow> Inr (m \<notin> set (map Str my)))
      else Inr False)"

definition checkContext :: "store \<Rightarrow> val \<Rightarrow> string option \<Rightarrow> methods \<Rightarrow> string \<Rightarrow> error + unit" where
  "checkContext s hook ty ms label =
     (case type_mismatch s hook ty of
        Inl e \<Rightarrow> Inl e
      | Inr True \<Rightarrow> Inl (ContextMismatch label (the ty))
      | Inr False \<Rightarrow>
          if \<not> truthy_methods ms then Inr ()
          else (case method_mismatch s hook (myMethods ms) of
                  Inl e \<Rightarrow> Inl e
                | Inr True \<Rightarrow> Inl (OperationMismatch label (myMethods ms))
                | Inr False \<Rightarrow> Inr ()))"

subsection \<open>getItems\<close>

text \<open>
  \<^verbatim>\<open>items && hook.method === 'find' ? items.data || items : items\<close>: the conditional
  binds weakest, \<^verbatim>\<open>hook.method\<close> is read for a truthy \<^verbatim>\<open>items\<close> only, and
  \<^verbatim>\<open>items.data\<close> for the method \<^verbatim>\<open>find\<close> only.
\<close>

definition getItems :: "store \<Rightarrow> val \<Rightarrow> error + val" where
  "getItems s hook =
     (case get_member s hook ''type'' of
        Inl e \<Rightarrow> Inl e
      | Inr ty \<Rightarrow>
          (case get_member s hook (if ty = Str ''before'' then ''data'' else ''result'') of
             Inl e \<Rightarrow> Inl e
           | Inr items \<Rightarrow>
               if truthy items then
                 (case get_member s hook ''method'' of
                    Inl e \<Rightarrow> Inl e
                  | Inr m \<Rightarrow>
                      if m = Str ''find'' then
                        (case get_member s items ''data'' of
                           Inl e \<Rightarrow> Inl e
                         | Inr d \<Rightarrow> if truthy d then Inr d else Inr items)
                      else Inr items)
               else Inr items))"

subsection \<open>replaceItems\<close>

text \<open>The array literal \<^verbatim>\<open>[v]\<close>: a fresh array of length one.\<close>

definition singleton_array :: "val \<Rightarrow> jsobj" where
  "singleton_array v = \<lparr>is_array = True, props = [''0'' \<mapsto> v, ''length'' \<mapsto> Num 1]\<rparr>"

text \<open>
  The two assignments of the paginated branch, for an array of items and for a single
  item. Each assignment reads \<^verbatim>\<open>hook.result\<close> anew, evaluates its right-hand side
  and then writes. Each function returns the store after both assignments.
\<close>

definition replace_array :: "store \<Rightarrow> val \<Rightarrow> val \<Rightarrow> error + store" where
  "replace_array s hook items =
     (case get_member s hook ''result'' of
        Inl e \<Rightarrow> Inl e
      | Inr r \<Rightarrow>
          (case set_member s r ''data'' items of
             Inl e \<Rightarrow> Inl e
           | Inr s1 \<Rightarrow>
               (case get_member s1 hook ''result'' of
                  Inl e \<Rightarrow> Inl e
                | Inr r1 \<Rightarrow>
                    (case get_member s1 items ''length'' of
                       Inl e \<Rightarrow> Inl e
                     | Inr n \<Rightarrow> set_member s1 r1 ''total'' n))))"

definition replace_single :: "store \<Rightarrow> val \<Rightarrow> val \<Rightarrow> error + store" where
  "replace_single s hook items =
     (case get_member s hook ''result'' of
        Inl e \<Rightarrow> Inl e
      | Inr r \<Rightarrow>
          (let (b, s0) = alloc s (singleton_array items) in
           case set_member s0 r ''data'' (Ref b) of
             Inl e \<Rightarrow> Inl e
           | Inr s1 \<Rightarrow>
               (case get_member s1 hook ''result'' of
                  Inl e \<Rightarrow> Inl e
                | Inr r1 \<Rightarrow> set_member s1 r1 ''total'' (Num 1))))"

text \<open>
  \<^verbatim>\<open>hook.method === 'find' && hook.result && hook.result.data\<close>, evaluated from the
  left and stopping at the first falsy operand. The two reads of \<^verbatim>\<open>hook.result\<close> see
  the same store and give the same value.
\<close>

definition paginated :: "store \<Rightarrow> val \<Rightarrow> error + bool" where
  "paginated s hook =
     (case get_member s hook ''method'' of
        Inl e \<Rightarrow> Inl e
      | Inr m \<Rightarrow>
          if m = Str ''find'' then
            (case get_member s hook ''result'' of
               Inl e \<Rightarrow> Inl e
             | Inr r \<Rightarrow>
                 if truthy r then
                   (case get_member s r ''data'' of
                      Inl e \<Rightarrow> Inl e
                    | Inr d \<Rightarrow> Inr (truthy d))
                 else Inr False)
          else Inr False)"

definition replaceItems :: "store \<Rightarrow> val \<Rightarrow> val \<Rightarrow> error + store" where
  "replaceItems s hook items =
     (case get_member s hook ''type'' of
        Inl e \<Rightarrow> Inl e
      | Inr ty \<Rightarrow>
          if ty = Str ''before'' then set_member s hook ''data'' items
          else (case paginated s hook of
                  Inl e \<Rightarrow> Inl e
                | Inr True \<Rightarrow>
                    if isArray s items then replace_array s hook items
                    else replace_single s hook items
                | Inr False \<Rightarrow> set_member s hook ''result'' items))"

section \<open>Concrete stores\<close>

text \<open>
  A store holding the given objects at the addresses \<open>0, 1, ...\<close>, an ordinary
  object with the given properties, and a hook object with its four fields; used to
  write down concrete inputs.
\<close>

definition store_of :: "jsobj list \<Rightarrow> store" where
  "store_of obs = \<lparr>objs = (\<lambda>a. if a < length obs then obs ! a else empty_obj), next_free = length obs\<rparr>"

definition plain_object :: "(string \<times> val) list \<Rightarrow> jsobj" where
  "plain_object kvs = \<lparr>is_array = False, props = map_of kvs\<rparr>"

definition hook_object :: "string \<Rightarrow> string \<Rightarrow> val \<Rightarrow> val \<Rightarrow> jsobj" where
  "hook_object ty m d r =
     plain_object [(''type'', Str ty), (''method'', Str m), (''data'', d), (''result'', r)]"

text \<open>
  The expression \<^verbatim>\<open>getByDot(setByDot(m, p, v, false), p)\<close>: the read starts from the
  value that \<^verbatim>\<open>setByDot\<close> returned, in the store that it left.
\<close>

definition getByDot_of_setByDot :: "store \<Rightarrow> val \<Rightarrow> string \<Rightarrow> val \<Rightarrow> error + val" where
  "getByDot_of_setByDot s m p v =
     (case setByDot s m p v False of
        Inl e \<Rightarrow> Inl e
      | Inr (r, s1) \<Rightarrow> getByDot s1 r p)"

section \<open>Properties\<close>

subsection \<open>Auxiliary facts\<close>

lemmas dot_path_defs =
  setByDot_def setByDot_step_def getByDot_def getByDot_step_def
  alloc_def put_own_def write_own_def get_own_def empty_obj_def

lemmas concrete_defs = store_of_def plain_object_def

lemma array_index_data: "array_index ''data'' = None"
  by (simp add: array_index_def digit_of_def)

lemma array_index_total: "array_index ''total'' = None"
  by (simp add: array_index_def digit_of_def)

lemma put_own_data: "put_own s a ''data'' v = Inr (write_own s a ''data'' v)"
  by (simp add: put_own_def array_index_data)

lemma put_own_total: "put_own s a ''total'' v = Inr (write_own s a ''total'' v)"
  by (simp add: put_own_def array_index_total)

lemma array_index_result: "array_index ''result'' = None"
  by (simp add: array_index_def digit_of_def)

lemma put_own_result: "put_own s a ''result'' v = Inr (write_own s a ''result'' v)"
  by (simp add: put_own_def array_index_result)

lemma get_own_write_own:
  "get_own (write_own s e k v) a k' = (if a = e \<and> k' = k then v else get_own s a k')"
  by (simp add: get_own_def write_own_def)

lemma get_own_alloc:
  "a \<noteq> next_free s \<Longrightarrow> get_own (snd (alloc s ob)) a k = get_own s a k"
  by (simp add: get_own_def alloc_def)

lemma objs_write_own_other:
  "b \<noteq> e \<Longrightarrow> objs (write_own s e k v) b = objs s b"
  by (simp add: write_own_def)

lemma objs_alloc_new: "objs (snd (alloc s ob)) (next_free s) = ob"
  by (simp add: alloc_def)

lemma replace_array_Ref:
  assumes "get_own s a ''result'' = Ref e"
  shows "replace_array s (Ref a) (Ref i) =
     Inr (write_own (write_own s e ''data'' (Ref i)) e ''total'' (get_own s i ''length''))"
  using assms
  by (simp add: replace_array_def put_own_data put_own_total get_own_write_own)

lemma replace_single_Ref:
  assumes "get_own s a ''result'' = Ref e" and "a \<noteq> next_free s"
  shows "replace_single s (Ref a) v =
     Inr (write_own
            (write_own (snd (alloc s (singleton_array v))) e ''data'' (Ref (next_free s)))
            e ''total'' (Num 1))"
proof -
  have fst_alloc: "fst (alloc s (singleton_array v)) = next_free s"
    by (simp add: alloc_def)
  show ?thesis
    using assms
    by (simp add: replace_single_def case_prod_unfold fst_alloc put_own_data put_own_total
          get_own_write_own get_own_alloc)
qed

lemma paginated_Ref:
  assumes "get_own s a ''method'' = Str ''find''" and "get_own s a ''result'' = Ref e"
  shows "paginated s (Ref a) = Inr (truthy (get_own s e ''data''))"
  using assms by (simp add: paginated_def)

lemma isArray_Ref: "isArray s v \<Longrightarrow> \<exists>i. v = Ref i"
  by (cases v) auto

subsection \<open>setByDot\<close>

text \<open>
  Claim C1 says that \<^verbatim>\<open>setByDot\<close> returns the root it was given. The reduction returns
  the accumulator of its last step, which is the object that holds the last segment:
  for \<^verbatim>\<open>setByDot({}, 'a.b', 1, false)\<close>, with the root at address 0, the root is
  changed in place to \<^verbatim>\<open>{a: {b: 1}}\<close>, and the value returned is the inner object at
  address 1, not the root.
\<close>

theorem setByDot_returns_innermost:
  "setByDot (store_of [plain_object []]) (Ref 0) ''a.b'' (Num 1) False =
     Inr (Ref 1, store_of [plain_object [(''a'', Ref 1)], plain_object [(''b'', Num 1)]])"
  by (auto simp add: dot_path_defs concrete_defs fun_eq_iff less_Suc_eq)

text \<open>
  Claim C2 says that reading a path from the value returned by \<^verbatim>\<open>setByDot\<close> for that
  path gives the value written. For \<^verbatim>\<open>getByDot(setByDot({}, 'a.b', 1, false), 'a.b')\<close>
  the read starts at the inner object \<^verbatim>\<open>{b: 1}\<close>, which has no property \<^verbatim>\<open>a\<close>, and
  gives \<^verbatim>\<open>undefined\<close>.
\<close>

theorem getByDot_of_setByDot_nested:
  "getByDot_of_setByDot (store_of [plain_object []]) (Ref 0) ''a.b'' (Num 1) = Inr Undefined"
  by (simp add: getByDot_of_setByDot_def dot_path_defs concrete_defs)

text \<open>
  Claim C6: \<^verbatim>\<open>setByDot({}, 'a.b.c', undefined, true)\<close> leaves the root equal to
  \<^verbatim>\<open>{a: {b: {}}}\<close>. For every store and every empty root object in it, the call
  allocates two objects, links them under \<^verbatim>\<open>a\<close> and \<^verbatim>\<open>b\<close>, leaves the inner one
  empty, and changes no other object.
\<close>

theorem setByDot_delete_keeps_intermediates:
  assumes "allocated s r" and "objs s r = empty_obj"
  shows "\<exists>s'. setByDot s (Ref r) ''a.b.c'' Undefined True = Inr (Ref (Suc (next_free s)), s')
           \<and> objs s' r = plain_object [(''a'', Ref (next_free s))]
           \<and> objs s' (next_free s) = plain_object [(''b'', Ref (Suc (next_free s)))]
           \<and> objs s' (Suc (next_free s)) = plain_object []
           \<and> (\<forall>a. allocated s a \<and> a \<noteq> r \<longrightarrow> objs s' a = objs s a)"
  using assms by (auto simp add: dot_path_defs plain_object_def allocated_def)

text \<open>The claim's own input: the root \<^verbatim>\<open>{}\<close> at address 0 of a store that holds nothing else.\<close>

theorem setByDot_delete_keeps_intermediates_witness:
  "\<exists>s'. setByDot (store_of [plain_object []]) (Ref 0) ''a.b.c'' Undefined True = Inr (Ref 2, s')
      \<and> objs s' 0 = plain_object [(''a'', Ref 1)]
      \<and> objs s' 1 = plain_object [(''b'', Ref 2)]
      \<and> objs s' 2 = plain_object []"
proof -
  let ?s = "store_of [plain_object []]"
  have a: "allocated ?s 0"
    by (simp add: allocated_def store_of_def)
  have e: "objs ?s 0 = empty_obj"
    by (simp add: store_of_def plain_object_def empty_obj_def)
  have n: "next_free ?s = 1"
    by (simp add: store_of_def)
  from setByDot_delete_keeps_intermediates [OF a e] show ?thesis
    unfolding n by (auto simp add: numeral_2_eq_2)
qed

text \<open>
  Claim C8 says that a value under a segment that is not the last is replaced by a new
  empty object whenever it is not an object, \<^verbatim>\<open>null\<close> included. The test of the code is
  \<^verbatim>\<open>typeof obj1[part] !== 'object'\<close>, which \<^verbatim>\<open>null\<close> passes: for
  \<^verbatim>\<open>setByDot({a: null}, 'a.b', 1, false)\<close> the \<^verbatim>\<open>null\<close> is kept and returned, and the
  assignment at the next segment throws.
\<close>

theorem setByDot_null_intermediate:
  "setByDot (store_of [plain_object [(''a'', Null)]]) (Ref 0) ''a.b'' (Num 1) False = Inl TypeError"
  by (simp add: dot_path_defs concrete_defs)

subsection \<open>getByDot\<close>

text \<open>
  Claim C7 says that \<^verbatim>\<open>getByDot\<close> never throws and gives \<^verbatim>\<open>undefined\<close> below a value
  that is not an object, \<^verbatim>\<open>null\<close> included. The guard is \<^verbatim>\<open>typeof obj1 === 'object'\<close>,
  which holds of \<^verbatim>\<open>null\<close>: \<^verbatim>\<open>getByDot({a: null}, 'a.b')\<close> reads a property of
  \<^verbatim>\<open>null\<close> and throws.
\<close>

theorem getByDot_null_intermediate:
  "getByDot (store_of [plain_object [(''a'', Null)]]) (Ref 0) ''a.b'' = Inl TypeError"
  by (simp add: dot_path_defs concrete_defs)

subsection \<open>checkContext\<close>

text \<open>
  Claim C4, as the code has it: for a hook object, \<^verbatim>\<open>checkContext\<close> fails exactly when
  either the expected type is truthy (neither \<^verbatim>\<open>null\<close> nor the empty string) and
  differs from \<^verbatim>\<open>hook.type\<close>, with the error of the first \<^verbatim>\<open>throw\<close>, or the type
  check passes and \<^verbatim>\<open>methods\<close> is a non-empty name other than \<^verbatim>\<open>hook.method\<close> or a
  non-empty array without \<^verbatim>\<open>hook.method\<close>, with the error of the second
  \<^verbatim>\<open>throw\<close>; with \<^verbatim>\<open>methods\<close> \<^verbatim>\<open>null\<close>, the empty string or the empty array every
  method is allowed.
\<close>

theorem checkContext_fails_iff:
  "((\<exists>e. checkContext s (Ref a) ty ms label = Inl e) \<longleftrightarrow>
      (\<exists>t. ty = Some t \<and> t \<noteq> [] \<and> get_own s a ''type'' \<noteq> Str t)
      \<or> (\<exists>m. ms = MStr m \<and> m \<noteq> [] \<and> get_own s a ''method'' \<noteq> Str m)
      \<or> (\<exists>l. ms = MArr l \<and> l \<noteq> [] \<and> get_own s a ''method'' \<notin> Str ` set l))
   \<and> (\<forall>t. ty = Some t \<and> t \<noteq> [] \<and> get_own s a ''type'' \<noteq> Str t \<longrightarrow>
          checkContext s (Ref a) ty ms label = Inl (ContextMismatch label t))
   \<and> ((ty = None \<or> ty = Some [] \<or> map_option Str ty = Some (get_own s a ''type'')) \<longrightarrow>
        (\<forall>m. ms = MStr m \<and> m \<noteq> [] \<and> get_own s a ''method'' \<noteq> Str m \<longrightarrow>
            checkContext s (Ref a) ty ms label = Inl (OperationMismatch label [m]))
      \<and> (\<forall>l. ms = MArr l \<and> l \<noteq> [] \<and> get_own s a ''method'' \<notin> Str ` set l \<longrightarrow>
            checkContext s (Ref a) ty ms label = Inl (OperationMismatch label l))
      \<and> (ms = MNull \<or> ms = MStr [] \<or> ms = MArr [] \<longrightarrow> checkContext s (Ref a) ty ms label = Inr ()))"
  by (cases ty; cases ms)
     (auto simp add: checkContext_def type_mismatch_def method_mismatch_def
        split: bool.splits)

text \<open>
  The claim speaks of an expected type that is not \<^verbatim>\<open>null\<close> and of a normalized set
  that is not empty. The code tests truthiness: with the empty string as expected type
  a \<^verbatim>\<open>before\<close> hook passes, and with the empty string as method name, whose normalized
  set would be the one-element set of that name, a \<^verbatim>\<open>create\<close> hook passes.
\<close>

theorem checkContext_empty_string_counterexample:
  "Some [] \<noteq> (None :: string option)
   \<and> get_own (store_of [hook_object ''before'' ''create'' Undefined Undefined]) 0 ''type'' \<noteq> Str []
   \<and> checkContext (store_of [hook_object ''before'' ''create'' Undefined Undefined]) (Ref 0)
        (Some []) MNull ''x'' = Inr ()
   \<and> get_own (store_of [hook_object ''before'' ''create'' Undefined Undefined]) 0 ''method'' \<noteq> Str []
   \<and> checkContext (store_of [hook_object ''before'' ''create'' Undefined Undefined]) (Ref 0)
        None (MStr []) ''x'' = Inr ()"
  by (simp add: checkContext_def type_mismatch_def method_mismatch_def get_own_def
        concrete_defs hook_object_def)

text \<open>
  The three calls of the specification: a \<^verbatim>\<open>before\<close> hook checked against
  \<^verbatim>\<open>after\<close>, and a \<^verbatim>\<open>before\<close> \<^verbatim>\<open>patch\<close> hook checked against
  \<^verbatim>\<open>['update', 'patch']\<close> and against \<^verbatim>\<open>['remove']\<close>; and calls with one name and
  with the empty array.
\<close>

theorem checkContext_fails_iff_witness:
  "checkContext (store_of [hook_object ''before'' ''create'' Undefined Undefined]) (Ref 0)
     (Some ''after'') MNull ''x'' = Inl (ContextMismatch ''x'' ''after'')
   \<and> checkContext (store_of [hook_object ''before'' ''patch'' Undefined Undefined]) (Ref 0)
       (Some ''before'') (MArr [''update'', ''patch'']) ''x'' = Inr ()
   \<and> checkContext (store_of [hook_object ''before'' ''patch'' Undefined Undefined]) (Ref 0)
       (Some ''before'') (MArr [''remove'']) ''x'' = Inl (OperationMismatch ''x'' [''remove''])
   \<and> checkContext (store_of [hook_object ''before'' ''patch'' Undefined Undefined]) (Ref 0)
       (Some ''before'') (MStr ''remove'') ''x'' = Inl (OperationMismatch ''x'' [''remove''])
   \<and> checkContext (store_of [hook_object ''before'' ''patch'' Undefined Undefined]) (Ref 0)
       (Some ''before'') (MArr []) ''x'' = Inr ()"
proof -
  let ?c = "store_of [hook_object ''before'' ''create'' Undefined Undefined]"
  let ?p = "store_of [hook_object ''before'' ''patch'' Undefined Undefined]"
  have c: "get_own ?c 0 ''type'' = Str ''before''"
    by (simp add: get_own_def concrete_defs hook_object_def)
  have p: "get_own ?p 0 ''type'' = Str ''before''" "get_own ?p 0 ''method'' = Str ''patch''"
    by (simp_all add: get_own_def concrete_defs hook_object_def)
  have 1: "checkContext ?c (Ref 0) (Some ''after'') MNull ''x'' = Inl (ContextMismatch ''x'' ''after'')"
    using checkContext_fails_iff [of ?c 0 "Some ''after''" MNull "''x''"] c by simp
  have "\<nexists>e. checkContext ?p (Ref 0) (Some ''before'') (MArr [''update'', ''patch'']) ''x'' = Inl e"
    using checkContext_fails_iff [of ?p 0 "Some ''before''" "MArr [''update'', ''patch'']" "''x''"] p
    by simp
  then have 2: "checkContext ?p (Ref 0) (Some ''before'') (MArr [''update'', ''patch'']) ''x'' = Inr ()"
    by (cases "checkContext ?p (Ref 0) (Some ''before'') (MArr [''update'', ''patch'']) ''x''") simp_all
  have 3: "checkContext ?p (Ref 0) (Some ''before'') (MArr [''remove'']) ''x''
             = Inl (OperationMismatch ''x'' [''remove''])"
    using checkContext_fails_iff [of ?p 0 "Some ''before''" "MArr [''remove'']" "''x''"] p by simp
  have 4: "checkContext ?p (Ref 0) (Some ''before'') (MStr ''remove'') ''x''
             = Inl (OperationMismatch ''x'' [''remove''])"
    using checkContext_fails_iff [of ?p 0 "Some ''before''" "MStr ''remove''" "''x''"] p by simp
  have 5: "checkContext ?p (Ref 0) (Some ''before'') (MArr []) ''x'' = Inr ()"
    using checkContext_fails_iff [of ?p 0 "Some ''before''" "MArr []" "''x''"] p by simp
  from 1 2 3 4 5 show ?thesis
    by blast
qed

subsection \<open>getItems\<close>

text \<open>
  Claim C3 says that for a \<^verbatim>\<open>before\<close> hook \<^verbatim>\<open>getItems\<close> returns \<^verbatim>\<open>hook.data\<close>
  itself whatever the method and the shape of the data, as the comment of the function
  does. The unwrapping of \<^verbatim>\<open>.data\<close> for the method \<^verbatim>\<open>find\<close> is applied to
  \<^verbatim>\<open>hook.data\<close> as well: for a \<^verbatim>\<open>before\<close> \<^verbatim>\<open>find\<close> hook, at address 1, whose
  data is the object \<^verbatim>\<open>{data: 5}\<close> at address 0 the result is \<^verbatim>\<open>5\<close>, not that
  object.
\<close>

theorem getItems_before_find_unwraps:
  "getItems (store_of [plain_object [(''data'', Num 5)], hook_object ''before'' ''find'' (Ref 0) Undefined])
     (Ref 1) = Inr (Num 5)"
  by (simp add: getItems_def get_own_def concrete_defs hook_object_def)

subsection \<open>replaceItems\<close>

text \<open>
  Claim C5, as the code has it: for an \<^verbatim>\<open>after\<close> \<^verbatim>\<open>find\<close> hook whose result is an
  object with a truthy \<^verbatim>\<open>data\<close> field, \<^verbatim>\<open>replaceItems\<close> with an array stores that
  very array under \<^verbatim>\<open>data\<close> and its \<^verbatim>\<open>length\<close> under \<^verbatim>\<open>total\<close>; with anything
  else it stores a new one-element array holding the value under \<^verbatim>\<open>data\<close> and
  \<^verbatim>\<open>1\<close> under \<^verbatim>\<open>total\<close>. In both cases the hook keeps its type, its method and
  the same object as its result, and the fields are written into that object.
\<close>

theorem replaceItems_paginated_envelope:
  assumes "get_own s a ''type'' = Str ''after''" and "get_own s a ''method'' = Str ''find''"
    and "get_own s a ''result'' = Ref e" and "truthy (get_own s e ''data'')"
    and "allocated s a" and "allocated s e"
  shows "(isArray s items \<longrightarrow>
            (\<exists>s'. replaceItems s (Ref a) items = Inr s'
                 \<and> get_own s' a ''type'' = Str ''after''
                 \<and> get_own s' a ''method'' = Str ''find''
                 \<and> get_own s' a ''result'' = Ref e
                 \<and> get_own s' e ''data'' = items
                 \<and> Inr (get_own s' e ''total'') = get_member s items ''length''))
       \<and> (\<not> isArray s items \<longrightarrow>
            (\<exists>s'. replaceItems s (Ref a) items = Inr s'
                 \<and> get_own s' a ''type'' = Str ''after''
                 \<and> get_own s' a ''method'' = Str ''find''
                 \<and> get_own s' a ''result'' = Ref e
                 \<and> get_own s' e ''data'' = Ref (next_free s)
                 \<and> objs s' (next_free s) = singleton_array items
                 \<and> get_own s' e ''total'' = Num 1))"
proof -
  have pg: "paginated s (Ref a) = Inr True"
    using assms by (simp add: paginated_Ref)
  have na: "a \<noteq> next_free s" and ne: "e \<noteq> next_free s"
    using assms(5,6) by (simp_all add: allocated_def)
  show ?thesis
  proof (intro conjI impI)
    assume arr: "isArray s items"
    then obtain i where i: "items = Ref i"
      using isArray_Ref by blast
    have r: "replaceItems s (Ref a) items =
        Inr (write_own (write_own s e ''data'' (Ref i)) e ''total'' (get_own s i ''length''))"
      using arr pg assms(1) i replace_array_Ref [OF assms(3)]
      by (simp add: replaceItems_def)
    show "\<exists>s'. replaceItems s (Ref a) items = Inr s'
                 \<and> get_own s' a ''type'' = Str ''after''
                 \<and> get_own s' a ''method'' = Str ''find''
                 \<and> get_own s' a ''result'' = Ref e
                 \<and> get_own s' e ''data'' = items
                 \<and> Inr (get_own s' e ''total'') = get_member s items ''length''"
      unfolding r using assms(1,2,3) i
      by (simp add: get_own_write_own)
  next
    assume narr: "\<not> isArray s items"
    have r: "replaceItems s (Ref a) items =
        Inr (write_own
               (write_own (snd (alloc s (singleton_array items))) e ''data'' (Ref (next_free s)))
               e ''total'' (Num 1))"
      using narr pg assms(1) replace_single_Ref [OF assms(3) na]
      by (simp add: replaceItems_def)
    show "\<exists>s'. replaceItems s (Ref a) items = Inr s'
                 \<and> get_own s' a ''type'' = Str ''after''
                 \<and> get_own s' a ''method'' = Str ''find''
                 \<and> get_own s' a ''result'' = Ref e
                 \<and> get_own s' e ''data'' = Ref (next_free s)
                 \<and> objs s' (next_free s) = singleton_array items
                 \<and> get_own s' e ''total'' = Num 1"
      unfolding r using assms(1,2,3) na ne
      by (simp add: get_own_write_own get_own_alloc objs_write_own_other objs_alloc_new)
  qed
qed

text \<open>
  The claim asks for an \<^verbatim>\<open>items\<close> field only. The code asks for a truthy one: with
  the result \<^verbatim>\<open>{data: null, total: 0}\<close> at address 0 and the hook at address 1,
  \<^verbatim>\<open>replaceItems(hook, 5)\<close> makes \<^verbatim>\<open>5\<close> the result of the hook and leaves that
  object as it was.
\<close>

theorem replaceItems_null_items_counterexample:
  "replaceItems
     (store_of [plain_object [(''data'', Null), (''total'', Num 0)],
                hook_object ''after'' ''find'' Undefined (Ref 0)])
     (Ref 1) (Num 5) =
   Inr (store_of [plain_object [(''data'', Null), (''total'', Num 0)],
                  hook_object ''after'' ''find'' Undefined (Num 5)])"
  by (auto simp add: replaceItems_def paginated_def put_own_result write_own_def get_own_def
        concrete_defs hook_object_def fun_eq_iff less_Suc_eq)

text \<open>
  The hook of the specification, at address 3, with the result
  \<^verbatim>\<open>{data: [1, 2], total: 2}\<close> at address 0 and the array at address 1: replacing the
  items by \<^verbatim>\<open>5\<close> gives \<^verbatim>\<open>{data: [5], total: 1}\<close> with a new array at address 4, and
  replacing them by the array \<^verbatim>\<open>[7, 8, 9]\<close> at address 2 gives
  \<^verbatim>\<open>{data: [7, 8, 9], total: 3}\<close>.
\<close>

theorem replaceItems_paginated_envelope_witness:
  "(\<exists>s'. replaceItems
           (store_of [plain_object [(''data'', Ref 1), (''total'', Num 2)],
                      \<lparr>is_array = True, props = [''0'' \<mapsto> Num 1, ''1'' \<mapsto> Num 2, ''length'' \<mapsto> Num 2]\<rparr>,
                      \<lparr>is_array = True,
                       props = [''0'' \<mapsto> Num 7, ''1'' \<mapsto> Num 8, ''2'' \<mapsto> Num 9, ''length'' \<mapsto> Num 3]\<rparr>,
                      hook_object ''after'' ''find'' Undefined (Ref 0)])
           (Ref 3) (Num 5) = Inr s'
       \<and> get_own s' 3 ''result'' = Ref 0
       \<and> get_own s' 0 ''data'' = Ref 4
       \<and> objs s' 4 = singleton_array (Num 5)
       \<and> get_own s' 0 ''total'' = Num 1)
   \<and> (\<exists>s'. replaceItems
           (store_of [plain_object [(''data'', Ref 1), (''total'', Num 2)],
                      \<lparr>is_array = True, props = [''0'' \<mapsto> Num 1, ''1'' \<mapsto> Num 2, ''length'' \<mapsto> Num 2]\<rparr>,
                      \<lparr>is_array = True,
                       props = [''0'' \<mapsto> Num 7, ''1'' \<mapsto> Num 8, ''2'' \<mapsto> Num 9, ''length'' \<mapsto> Num 3]\<rparr>,
                      hook_object ''after'' ''find'' Undefined (Ref 0)])
           (Ref 3) (Ref 2) = Inr s'
       \<and> get_own s' 3 ''result'' = Ref 0
       \<and> get_own s' 0 ''data'' = Ref 2
       \<and> get_own s' 0 ''total'' = Num 3)"
proof -
  let ?s = "store_of [plain_object [(''data'', Ref 1), (''total'', Num 2)],
                      \<lparr>is_array = True, props = [''0'' \<mapsto> Num 1, ''1'' \<mapsto> Num 2, ''length'' \<mapsto> Num 2]\<rparr>,
                      \<lparr>is_array = True,
                       props = [''0'' \<mapsto> Num 7, ''1'' \<mapsto> Num 8, ''2'' \<mapsto> Num 9, ''length'' \<mapsto> Num 3]\<rparr>,
                      hook_object ''after'' ''find'' Undefined (Ref 0)]"
  have 1: "get_own ?s 3 ''type'' = Str ''after''" and 2: "get_own ?s 3 ''method'' = Str ''find''"
    and 3: "get_own ?s 3 ''result'' = Ref 0"
    by (simp_all add: get_own_def concrete_defs hook_object_def)
  have 4: "truthy (get_own ?s 0 ''data'')"
    by (simp add: get_own_def concrete_defs)
  have 5: "allocated ?s 3" and 6: "allocated ?s 0"
    by (simp_all add: allocated_def store_of_def)
  have n: "next_free ?s = 4"
    by (simp add: store_of_def)
  have single: "\<not> isArray ?s (Num 5)"
    by simp
  have arr: "isArray ?s (Ref 2)"
    by (simp add: store_of_def)
  have len: "get_member ?s (Ref 2) ''length'' = Inr (Num 3)"
    by (simp add: get_own_def store_of_def)
  from replaceItems_paginated_envelope [OF 1 2 3 4 5 6, of "Num 5"] single
  have a: "\<exists>s'. replaceItems ?s (Ref 3) (Num 5) = Inr s'
             \<and> get_own s' 3 ''result'' = Ref 0
             \<and> get_own s' 0 ''data'' = Ref 4
             \<and> objs s' 4 = singleton_array (Num 5)
             \<and> get_own s' 0 ''total'' = Num 1"
    unfolding n by blast
  from replaceItems_paginated_envelope [OF 1 2 3 4 5 6, of "Ref 2"] arr
  have b: "\<exists>s'. replaceItems ?s (Ref 3) (Ref 2) = Inr s'
             \<and> get_own s' 3 ''result'' = Ref 0
             \<and> get_own s' 0 ''data'' = Ref 2
             \<and> get_own s' 0 ''total'' = Num 3"
    unfolding len by auto
  from a b show ?thesis
    by blast
qed

text \<open>
  Claim C9, as the code has it: when \<^verbatim>\<open>replaceItems\<close> takes the paginated branch and
  the result object is not the hook itself, the hook object is left as it was, with all
  its fields and the same object as its result; in the result object every property
  other than \<^verbatim>\<open>data\<close> and \<^verbatim>\<open>total\<close> keeps its value, the object stays an array
  or not as it was, and every other object of the store is unchanged.
\<close>

theorem replaceItems_paginated_frame:
  assumes "get_own s a ''type'' \<noteq> Str ''before''" and "paginated s (Ref a) = Inr True"
    and "get_own s a ''result'' = Ref e" and "e \<noteq> a"
    and "allocated s a" and "allocated s e"
  shows "\<exists>s'. replaceItems s (Ref a) items = Inr s'
           \<and> objs s' a = objs s a
           \<and> (\<forall>k. k \<noteq> ''data'' \<and> k \<noteq> ''total'' \<longrightarrow> props (objs s' e) k = props (objs s e) k)
           \<and> is_array (objs s' e) = is_array (objs s e)
           \<and> (\<forall>b. allocated s b \<and> b \<noteq> e \<longrightarrow> objs s' b = objs s b)"
proof (cases "isArray s items")
  case True
  then obtain i where i: "items = Ref i"
    using isArray_Ref by blast
  show ?thesis
    using True assms(1,2,4) i replace_array_Ref [OF assms(3)]
    by (simp add: replaceItems_def write_own_def)
next
  case False
  have na: "a \<noteq> next_free s" and ne: "e \<noteq> next_free s"
    using assms(5,6) by (simp_all add: allocated_def)
  show ?thesis
    using False assms(1,2,4) na ne replace_single_Ref [OF assms(3) na]
    by (auto simp add: replaceItems_def write_own_def alloc_def allocated_def)
qed

text \<open>
  The claim has no proviso. A hook that is its own result, at address 0, with the data
  \<^verbatim>\<open>1\<close>, takes the paginated branch, and \<^verbatim>\<open>replaceItems(hook, 5)\<close> overwrites its
  \<^verbatim>\<open>data\<close> with the new array at address 1 and gives it a field \<^verbatim>\<open>total\<close>.
\<close>

theorem replaceItems_self_result_counterexample:
  "paginated (store_of [hook_object ''after'' ''find'' (Num 1) (Ref 0)]) (Ref 0) = Inr True
   \<and> get_own (store_of [hook_object ''after'' ''find'' (Num 1) (Ref 0)]) 0 ''data'' = Num 1
   \<and> replaceItems (store_of [hook_object ''after'' ''find'' (Num 1) (Ref 0)]) (Ref 0) (Num 5) =
       Inr (store_of
              [plain_object [(''type'', Str ''after''), (''method'', Str ''find''), (''data'', Ref 1),
                             (''result'', Ref 0), (''total'', Num 1)],
               singleton_array (Num 5)])"
  by (auto simp add: replaceItems_def paginated_def replace_single_def alloc_def put_own_data
        put_own_total write_own_def get_own_def concrete_defs hook_object_def fun_eq_iff
        less_Suc_eq)

text \<open>
  A result \<^verbatim>\<open>{data: [1], total: 1, limit: 10, skip: 0}\<close> at address 0 with its array
  at address 1 and the hook at address 2: after \<^verbatim>\<open>replaceItems(hook, 5)\<close> the hook, the
  fields \<^verbatim>\<open>limit\<close> and \<^verbatim>\<open>skip\<close> and the old array are as before.
\<close>

theorem replaceItems_paginated_frame_witness:
  "\<exists>s'. replaceItems
          (store_of [plain_object [(''data'', Ref 1), (''total'', Num 1), (''limit'', Num 10), (''skip'', Num 0)],
                     \<lparr>is_array = True, props = [''0'' \<mapsto> Num 1, ''length'' \<mapsto> Num 1]\<rparr>,
                     hook_object ''after'' ''find'' (Str ''in'') (Ref 0)])
          (Ref 2) (Num 5) = Inr s'
      \<and> objs s' 2 = hook_object ''after'' ''find'' (Str ''in'') (Ref 0)
      \<and> props (objs s' 0) ''limit'' = Some (Num 10)
      \<and> props (objs s' 0) ''skip'' = Some (Num 0)
      \<and> is_array (objs s' 0) = False
      \<and> objs s' 1 = \<lparr>is_array = True, props = [''0'' \<mapsto> Num 1, ''length'' \<mapsto> Num 1]\<rparr>"
proof -
  let ?s = "store_of [plain_object [(''data'', Ref 1), (''total'', Num 1), (''limit'', Num 10), (''skip'', Num 0)],
                      \<lparr>is_array = True, props = [''0'' \<mapsto> Num 1, ''length'' \<mapsto> Num 1]\<rparr>,
                      hook_object ''after'' ''find'' (Str ''in'') (Ref 0)]"
  have 1: "get_own ?s 2 ''type'' \<noteq> Str ''before''"
    by (simp add: get_own_def concrete_defs hook_object_def)
  have 2: "paginated ?s (Ref 2) = Inr True"
    by (simp add: paginated_def get_own_def concrete_defs hook_object_def)
  have 3: "get_own ?s 2 ''result'' = Ref 0"
    by (simp add: get_own_def concrete_defs hook_object_def)
  have 4: "(0::nat) \<noteq> 2"
    by simp
  have 5: "allocated ?s 2" and 6: "allocated ?s 0"
    by (simp_all add: allocated_def store_of_def)
  have 7: "allocated ?s 1 \<and> (1::nat) \<noteq> 0"
    by (simp add: allocated_def store_of_def)
  from replaceItems_paginated_frame [OF 1 2 3 4 5 6, of "Num 5"]
  obtain s' where r: "replaceItems ?s (Ref 2) (Num 5) = Inr s'"
    and h: "objs s' 2 = objs ?s 2"
    and k: "\<forall>k. k \<noteq> ''data'' \<and> k \<noteq> ''total'' \<longrightarrow> props (objs s' 0) k = props (objs ?s 0) k"
    and f: "is_array (objs s' 0) = is_array (objs ?s 0)"
    and o: "\<forall>b. allocated ?s b \<and> b \<noteq> 0 \<longrightarrow> objs s' b = objs ?s b"
    by blast
  have "objs s' 2 = hook_object ''after'' ''find'' (Str ''in'') (Ref 0)"
    using h by (simp add: store_of_def)
  moreover have "props (objs s' 0) ''limit'' = Some (Num 10)"
    using k by (simp add: concrete_defs)
  moreover have "props (objs s' 0) ''skip'' = Some (Num 0)"
    using k by (simp add: concrete_defs)
  moreover have "is_array (objs s' 0) = False"
    using f by (simp add: concrete_defs)
  moreover have "objs s' 1 = \<lparr>is_array = True, props = [''0'' \<mapsto> Num 1, ''length'' \<mapsto> Num 1]\<rparr>"
    using o 7 by (simp add: concrete_defs)
  ultimately show ?thesis
    using r by blast
qed

text \<open>
  Claim C10: the paginated shape is recognised by the truthiness of \<^verbatim>\<open>data\<close>. For an
  \<^verbatim>\<open>after\<close> \<^verbatim>\<open>find\<close> hook whose result is an object that has a \<^verbatim>\<open>data\<close> field with
  a falsy value, \<^verbatim>\<open>getItems\<close> returns the result object itself, and
  \<^verbatim>\<open>replaceItems\<close> writes the new items into the field \<^verbatim>\<open>result\<close> of the hook and
  does nothing else: the old result object keeps its fields.
\<close>

theorem falsy_items_not_paginated:
  assumes "get_own s a ''type'' = Str ''after''" and "get_own s a ''method'' = Str ''find''"
    and "get_own s a ''result'' = Ref e"
    and "props (objs s e) ''data'' = Some d" and "\<not> truthy d"
  shows "getItems s (Ref a) = Inr (Ref e)
       \<and> replaceItems s (Ref a) items = Inr (write_own s a ''result'' items)"
  using assms
  by (simp add: getItems_def replaceItems_def paginated_def put_own_result get_own_def)

text \<open>
  The result \<^verbatim>\<open>{data: 0, total: 0}\<close> at address 0 and the hook at address 1, replaced
  by the string \<^verbatim>\<open>'new'\<close>.
\<close>

theorem falsy_items_not_paginated_witness:
  "getItems
     (store_of [plain_object [(''data'', Num 0), (''total'', Num 0)],
                hook_object ''after'' ''find'' Undefined (Ref 0)])
     (Ref 1) = Inr (Ref 0)
   \<and> replaceItems
       (store_of [plain_object [(''data'', Num 0), (''total'', Num 0)],
                  hook_object ''after'' ''find'' Undefined (Ref 0)])
       (Ref 1) (Str ''new'') =
     Inr (store_of [plain_object [(''data'', Num 0), (''total'', Num 0)],
                    hook_object ''after'' ''find'' Undefined (Str ''new'')])"
proof -
  let ?s = "store_of [plain_object [(''data'', Num 0), (''total'', Num 0)],
                      hook_object ''after'' ''find'' Undefined (Ref 0)]"
  have 1: "get_own ?s 1 ''type'' = Str ''after''" and 2: "get_own ?s 1 ''method'' = Str ''find''"
    and 3: "get_own ?s 1 ''result'' = Ref 0"
    by (simp_all add: get_own_def concrete_defs hook_object_def)
  have 4: "props (objs ?s 0) ''data'' = Some (Num 0)"
    by (simp add: concrete_defs)
  have 5: "\<not> truthy (Num 0)"
    by simp
  have w: "write_own ?s 1 ''result'' (Str ''new'') =
      store_of [plain_object [(''data'', Num 0), (''total'', Num 0)],
                hook_object ''after'' ''find'' Undefined (Str ''new'')]"
    by (auto simp add: write_own_def concrete_defs hook_object_def fun_eq_iff less_Suc_eq)
  from falsy_items_not_paginated [OF 1 2 3 4 5, of "Str ''new''"] show ?thesis
    unfolding w by simp
qed

end
